theory Spec2Isabelle
  imports Main
begin

section \<open>Python values and attribute stores\<close>

text \<open>
  The values that loggingutil.py moves between headers, contexts and log records:
  \<open>None\<close>, strings, integers (levels and line numbers of a base record), dictionaries
  (literal ones, kept in the order they are written) and the \<open>Resource(type, labels)\<close>
  tuple of the cloud logging client.
\<close>

datatype pyval =
    PyNone
  | PyStr string
  | PyInt int
  | PyDict "(string \<times> pyval) list"
  | PyResource string "(string \<times> pyval) list"

text \<open>Truth value testing, as \<open>if x:\<close> does it.\<close>

fun truthy :: "pyval \<Rightarrow> bool" where
  "truthy PyNone = False"
| "truthy (PyStr s) = (s \<noteq> [])"
| "truthy (PyInt i) = (i \<noteq> 0)"
| "truthy (PyDict d) = (d \<noteq> [])"
| "truthy (PyResource t ls) = True"

text \<open>
  An object with attributes (the thread-local request context, a log record) and a
  dictionary with string keys (the function context) are maps from names to values.
\<close>

type_synonym attrs = "string \<rightharpoonup> pyval"

definition getattr :: "attrs \<Rightarrow> string \<Rightarrow> pyval \<Rightarrow> pyval" where
  "getattr obj name dflt = (case obj name of None \<Rightarrow> dflt | Some v \<Rightarrow> v)"

definition setattr :: "attrs \<Rightarrow> string \<Rightarrow> pyval \<Rightarrow> attrs" where
  "setattr obj name v = obj(name \<mapsto> v)"

definition dict_get :: "attrs \<Rightarrow> string \<Rightarrow> pyval \<Rightarrow> pyval" where
  "dict_get d key dflt = (case d key of None \<Rightarrow> dflt | Some v \<Rightarrow> v)"

datatype error = IndexError

text \<open>\<open>xs[i]\<close> for a literal index \<open>i \<ge> 0\<close>: out of range raises.\<close>

definition py_index :: "'a list \<Rightarrow> nat \<Rightarrow> error + 'a" where
  "py_index xs i = (if i < length xs then Inr (xs ! i) else Inl IndexError)"

text \<open>\<open>s.split(sep)\<close> for a one-character separator: \<open>''.split('-') == ['']\<close>.\<close>

fun py_split :: "char \<Rightarrow> string \<Rightarrow> string list" where
  "py_split sep [] = [[]]"
| "py_split sep (c # cs) =
     (if c = sep then [] # py_split sep cs
      else (case py_split sep cs of
              [] \<Rightarrow> [[c]]
            | w # ws \<Rightarrow> (c # w) # ws))"

section \<open>LogFactory\<close>

text \<open>
  The loggers of the logging module are kept by name; \<open>getLogger\<close> creates the
  logger on first use and returns the same object for the same name afterwards, so a
  logger object is identified by its name. The name of the module, \<open>__name__\<close>, is a
  parameter.
\<close>

record handler =
  handler_name :: string
  isinstance_StreamHandler :: bool
  installed_by_backend :: bool

record logger =
  level :: int
  handlers :: "handler list"

type_synonym manager = "string \<rightharpoonup> logger"

definition NOTSET :: int where "NOTSET = 0"
definition DEBUG :: int where "DEBUG = 10"
definition INFO :: int where "INFO = 20"

definition getLogger :: "string \<Rightarrow> manager \<Rightarrow> string \<times> manager" where
  "getLogger name m =
     (case m name of
        Some l \<Rightarrow> (name, m)
      | None \<Rightarrow> (name, m(name \<mapsto> \<lparr>level = NOTSET, handlers = []\<rparr>)))"

definition setLevel :: "string \<Rightarrow> int \<Rightarrow> manager \<Rightarrow> manager" where
  "setLevel lg lvl m =
     (case m lg of
        Some l \<Rightarrow> m(lg \<mapsto> l\<lparr>level := lvl\<rparr>)
      | None \<Rightarrow> m)"

definition LogFactory :: "string \<Rightarrow> string \<Rightarrow> int \<Rightarrow> bool \<Rightarrow> manager \<Rightarrow> string \<times> manager" where
  "LogFactory module_name name log_level debug m =
     (case getLogger module_name m of
        (lg, m1) \<Rightarrow>
          (if debug then (lg, setLevel lg DEBUG m1)
           else (lg, setLevel lg log_level m1)))"

section \<open>Removal of the duplicate root handlers\<close>

text \<open>\<open>del xs[i]\<close> for an index in range.\<close>

definition del_at :: "nat \<Rightarrow> 'a list \<Rightarrow> 'a list" where
  "del_at i xs = take i xs @ drop (Suc i) xs"

definition remove_root_stream_handlers :: "handler list \<Rightarrow> handler list" where
  "remove_root_stream_handlers root_handlers =
     (if length root_handlers > 2
         \<and> isinstance_StreamHandler (root_handlers ! 0)
         \<and> isinstance_StreamHandler (root_handlers ! 1)
      then del_at 0 (del_at 0 root_handlers)
      else root_handlers)"

text \<open>
  The pattern as the specification words it: two generic console handlers, then the
  handler or handlers of the backend, and nothing else.
\<close>

definition generic_console :: "handler \<Rightarrow> bool" where
  "generic_console h = (isinstance_StreamHandler h \<and> \<not> installed_by_backend h)"

fun spec_duplicate_pattern :: "handler list \<Rightarrow> bool" where
  "spec_duplicate_pattern (a # b # c # rest) =
     (generic_console a \<and> generic_console b \<and> list_all installed_by_backend (c # rest))"
| "spec_duplicate_pattern hs = False"

section \<open>The log record factory\<close>

text \<open>
  \<open>_new_log_factory\<close> reads two globals, the function context (a dictionary) and the
  request context of the running thread (an object), and calls the factory that was
  installed before it; the three are parameters here.
\<close>

definition new_log_factory ::
  "('a \<Rightarrow> attrs) \<Rightarrow> attrs \<Rightarrow> attrs \<Rightarrow> 'a \<Rightarrow> attrs" where
  "new_log_factory old_log_factory function_context request_context args =
     (let record0 = old_log_factory args;
          project_id = dict_get function_context ''project_id'' PyNone;
          region = dict_get function_context ''function_region'' PyNone;
          function_name = dict_get function_context ''function_name'' PyNone;
          resource = PyResource ''cloud_function''
            [(''project_id'', project_id), (''region'', region),
             (''function_name'', function_name)];
          record1 = setattr record0 ''resource'' resource;
          trace = getattr request_context ''trace'' PyNone;
          record2 = (if truthy trace then setattr record1 ''trace'' trace else record1);
          span_id = getattr request_context ''span_id'' PyNone;
          record3 = (if truthy span_id then setattr record2 ''span_id'' span_id else record2);
          execution_id = getattr request_context ''execution_id'' PyNone;
          record4 =
            (if truthy execution_id
             then setattr record3 ''labels''
                    (dict_get function_context ''labels''
                       (PyDict [(''execution_id'', execution_id)]))
             else record3)
      in record4)"

section \<open>The request hook\<close>

text \<open>
  The headers of a request, by header name (the framework compares header names without
  regard to case; a name stands for all its spellings here); \<open>headers.get(name)\<close> is
  \<open>None\<close> for a header that was not sent.
\<close>

type_synonym headers = "string \<rightharpoonup> string"

definition headers_get :: "headers \<Rightarrow> string \<Rightarrow> pyval" where
  "headers_get hs name = (case hs name of None \<Rightarrow> PyNone | Some s \<Rightarrow> PyStr s)"

text \<open>
  \<open>before_req\<close> returns the request context as it is when the function ends, also
  when it ends by raising: the assignment to \<open>trace\<close> has happened when \<open>trace[2]\<close>
  raises.
\<close>

definition set_trace_fields :: "string \<Rightarrow> attrs \<Rightarrow> (error + unit) \<times> attrs" where
  "set_trace_fields trace_header ctx =
     (let trace = py_split (CHR ''-'') trace_header in
      case py_index trace 1 of
        Inl e \<Rightarrow> (Inl e, ctx)
      | Inr t1 \<Rightarrow>
          (let ctx1 = setattr ctx ''trace'' (PyStr t1) in
           case py_index trace 2 of
             Inl e \<Rightarrow> (Inl e, ctx1)
           | Inr t2 \<Rightarrow> (Inr (), setattr ctx1 ''span_id'' (PyStr t2))))"

definition before_req :: "headers \<Rightarrow> attrs \<Rightarrow> (error + unit) \<times> attrs" where
  "before_req hs ctx =
     (let trace_header = headers_get hs ''Traceparent'';
          step1 = (case trace_header of
                     PyStr s \<Rightarrow> (if truthy trace_header then set_trace_fields s ctx
                                 else (Inr (), ctx))
                   | _ \<Rightarrow> (Inr (), ctx))
      in case step1 of
           (Inl e, ctx1) \<Rightarrow> (Inl e, ctx1)
         | (Inr u, ctx1) \<Rightarrow>
             (let execution_id = headers_get hs ''Function-Execution-Id''
              in (Inr (), setattr ctx1 ''execution_id'' execution_id)))"

section \<open>The request context of each thread\<close>

text \<open>
  \<open>threading.local()\<close> keeps one set of attributes for each OS thread. A
  request-handling flow runs on a thread; flows that are interleaved on one thread
  (coroutines of an event loop) have the same thread and so the same attributes.
\<close>

record flow =
  flow_id :: nat
  os_thread :: nat

type_synonym thread_local = "nat \<Rightarrow> attrs"

definition before_req_in :: "flow \<Rightarrow> headers \<Rightarrow> thread_local \<Rightarrow> thread_local" where
  "before_req_in f hs store = store(os_thread f := snd (before_req hs (store (os_thread f))))"

fun run_hooks :: "(flow \<times> headers) list \<Rightarrow> thread_local \<Rightarrow> thread_local" where
  "run_hooks [] store = store"
| "run_hooks ((f, hs) # es) store = run_hooks es (before_req_in f hs store)"

fun run_hooks_local :: "headers list \<Rightarrow> attrs \<Rightarrow> attrs" where
  "run_hooks_local [] ctx = ctx"
| "run_hooks_local (hs # hss) ctx = run_hooks_local hss (snd (before_req hs ctx))"

definition request_context_get :: "thread_local \<Rightarrow> flow \<Rightarrow> pyval \<times> pyval \<times> pyval" where
  "request_context_get store f =
     (getattr (store (os_thread f)) ''trace'' PyNone,
      getattr (store (os_thread f)) ''span_id'' PyNone,
      getattr (store (os_thread f)) ''execution_id'' PyNone)"

section \<open>Helper lemmas\<close>

lemma py_split_append:
  "sep \<notin> set v \<Longrightarrow> py_split sep (v @ sep # rest) = v # py_split sep rest"
  by (induction v) auto

lemma set_trace_fields_three:
  "py_split (CHR ''-'') h = v # t # s # rest \<Longrightarrow>
   set_trace_fields h ctx = (Inr (), ctx(''trace'' \<mapsto> PyStr t, ''span_id'' \<mapsto> PyStr s))"
  by (simp add: set_trace_fields_def py_index_def setattr_def)

lemma del_at_0: "del_at 0 (x # xs) = xs"
  by (simp add: del_at_def)

lemma before_req_in_other:
  "t \<noteq> os_thread f \<Longrightarrow> before_req_in f hs store t = store t"
  by (simp add: before_req_in_def)

lemma before_req_in_same:
  "before_req_in f hs store (os_thread f) = snd (before_req hs (store (os_thread f)))"
  by (simp add: before_req_in_def)

lemma run_hooks_thread:
  "run_hooks es store t
     = run_hooks_local (map snd (filter (\<lambda>e. os_thread (fst e) = t) es)) (store t)"
proof (induction es arbitrary: store)
  case Nil
  show ?case by simp
next
  case (Cons e es)
  obtain f hs where e: "e = (f, hs)" by (cases e)
  have step: "run_hooks (e # es) store t
      = run_hooks_local (map snd (filter (\<lambda>e. os_thread (fst e) = t) es))
          (before_req_in f hs store t)"
    using Cons.IH [of "before_req_in f hs store"] e by simp
  show ?case
  proof (cases "os_thread f = t")
    case True
    then show ?thesis using step e before_req_in_same [of f hs store] by simp
  next
    case False
    then show ?thesis using step e before_req_in_other [of t f hs store] by simp
  qed
qed

section \<open>The request hook and the trace header\<close>

text \<open>
  C1. The claim: a trace header that is present but has fewer than three segments
  leaves trace and span absent and raises nothing. The hook indexes the split header
  without looking at its length: with one segment \<open>trace[1]\<close> raises IndexError, and
  with two segments the trace is stored and then \<open>trace[2]\<close> raises.
\<close>

theorem before_req_short_traceparent_raises:
  "before_req [''Traceparent'' \<mapsto> ''abc''] Map.empty = (Inl IndexError, Map.empty)
   \<and> before_req [''Traceparent'' \<mapsto> ''00-abc''] Map.empty
       = (Inl IndexError, [''trace'' \<mapsto> PyStr ''abc''])"
  by (simp add: before_req_def headers_get_def set_trace_fields_def py_index_def setattr_def)

text \<open>
  A request without a trace header leaves the trace and span of an earlier request on
  the same storage where they are.
\<close>

theorem before_req_keeps_stale_trace:
  "fst (before_req Map.empty [''trace'' \<mapsto> PyStr ''aaaa'', ''span_id'' \<mapsto> PyStr ''bbbb''])
     = Inr ()
   \<and> getattr (snd (before_req Map.empty
          [''trace'' \<mapsto> PyStr ''aaaa'', ''span_id'' \<mapsto> PyStr ''bbbb''])) ''trace'' PyNone
     = PyStr ''aaaa''
   \<and> getattr (snd (before_req Map.empty
          [''trace'' \<mapsto> PyStr ''aaaa'', ''span_id'' \<mapsto> PyStr ''bbbb''])) ''span_id'' PyNone
     = PyStr ''bbbb''"
  by (simp add: before_req_def headers_get_def setattr_def getattr_def)

text \<open>
  C2, amended. The hook always overwrites the execution id with the value of the
  execution-id header (\<open>None\<close> when the header was not sent). It overwrites trace and
  span, with the second and third segment, only when the trace header is present and
  not empty (here: with at least three segments); when the trace header is missing or
  empty, trace and span keep whatever the storage held before.
\<close>

theorem before_req_overwrites:
  "(hs ''Traceparent'' = None \<or> hs ''Traceparent'' = Some [] \<longrightarrow>
      before_req hs ctx
        = (Inr (), ctx(''execution_id'' \<mapsto> headers_get hs ''Function-Execution-Id'')))
   \<and> (hs ''Traceparent'' = Some h \<and> h \<noteq> [] \<and> py_split (CHR ''-'') h = v # t # s # rest \<longrightarrow>
      before_req hs ctx
        = (Inr (), ctx(''trace'' \<mapsto> PyStr t, ''span_id'' \<mapsto> PyStr s,
                       ''execution_id'' \<mapsto> headers_get hs ''Function-Execution-Id'')))"
  by (auto simp add: before_req_def headers_get_def setattr_def set_trace_fields_three)

theorem before_req_overwrites_witness:
  "before_req Map.empty [''trace'' \<mapsto> PyStr ''aaaa'', ''execution_id'' \<mapsto> PyStr ''e1'']
     = (Inr (), [''trace'' \<mapsto> PyStr ''aaaa'', ''execution_id'' \<mapsto> PyNone])
   \<and> before_req [''Traceparent'' \<mapsto> ''00-cccc-dddd-01'', ''Function-Execution-Id'' \<mapsto> ''e2'']
        [''trace'' \<mapsto> PyStr ''aaaa'']
     = (Inr (), [''trace'' \<mapsto> PyStr ''cccc'', ''span_id'' \<mapsto> PyStr ''dddd'',
                 ''execution_id'' \<mapsto> PyStr ''e2''])"
  using before_req_overwrites [where hs = Map.empty
      and ctx = "[''trace'' \<mapsto> PyStr ''aaaa'', ''execution_id'' \<mapsto> PyStr ''e1'']"]
    before_req_overwrites [where
      hs = "[''Traceparent'' \<mapsto> ''00-cccc-dddd-01'', ''Function-Execution-Id'' \<mapsto> ''e2'']"
      and ctx = "[''trace'' \<mapsto> PyStr ''aaaa'']" and h = "''00-cccc-dddd-01''"
      and v = "''00''" and t = "''cccc''" and s = "''dddd''" and rest = "[''01'']"]
  by (simp add: headers_get_def)

text \<open>
  C5. For a trace header \<open>version-traceId-spanId-flags\<close> (no dash inside the first
  three segments) the hook stores exactly the second segment as trace and the third as
  span, whatever the version and the flags are, and raises nothing.
\<close>

theorem traceparent_segments:
  assumes "CHR ''-'' \<notin> set v" and "CHR ''-'' \<notin> set t" and "CHR ''-'' \<notin> set s"
    and "hs ''Traceparent'' = Some (v @ ''-'' @ t @ ''-'' @ s @ ''-'' @ fl)"
  shows "fst (before_req hs ctx) = Inr ()
     \<and> snd (before_req hs ctx) ''trace'' = Some (PyStr t)
     \<and> snd (before_req hs ctx) ''span_id'' = Some (PyStr s)"
proof -
  let ?h = "v @ ''-'' @ t @ ''-'' @ s @ ''-'' @ fl"
  have "py_split (CHR ''-'') ?h = v # t # s # py_split (CHR ''-'') fl"
    using assms(1-3) by (simp add: py_split_append)
  then have "set_trace_fields ?h ctx
      = (Inr (), ctx(''trace'' \<mapsto> PyStr t, ''span_id'' \<mapsto> PyStr s))"
    by (rule set_trace_fields_three)
  then show ?thesis
    using assms(4) by (simp add: before_req_def headers_get_def setattr_def)
qed

theorem traceparent_segments_witness:
  "fst (before_req
      [''Traceparent'' \<mapsto> ''00-4bf92f3577b34da6a3ce929d0e0e4736-00f067aa0ba902b7-01'']
      Map.empty) = Inr ()
   \<and> snd (before_req
      [''Traceparent'' \<mapsto> ''00-4bf92f3577b34da6a3ce929d0e0e4736-00f067aa0ba902b7-01'']
      Map.empty) ''trace'' = Some (PyStr ''4bf92f3577b34da6a3ce929d0e0e4736'')
   \<and> snd (before_req
      [''Traceparent'' \<mapsto> ''00-4bf92f3577b34da6a3ce929d0e0e4736-00f067aa0ba902b7-01'']
      Map.empty) ''span_id'' = Some (PyStr ''00f067aa0ba902b7'')"
  using traceparent_segments [where v = "''00''"
      and t = "''4bf92f3577b34da6a3ce929d0e0e4736''" and s = "''00f067aa0ba902b7''"
      and fl = "''01''" and ctx = Map.empty
      and hs = "[''Traceparent'' \<mapsto>
                  ''00-4bf92f3577b34da6a3ce929d0e0e4736-00f067aa0ba902b7-01'']"]
  by simp

section \<open>The log record factory: what is attached\<close>

text \<open>
  An execution-id header that is sent empty: the hook stores the empty string, so the
  execution id is present, and the factory attaches no \<open>labels\<close> at all, although
  the function context has an explicit label mapping.
\<close>

theorem empty_execution_id_attaches_no_labels:
  "snd (before_req [''Function-Execution-Id'' \<mapsto> []] Map.empty) ''execution_id''
     = Some (PyStr [])
   \<and> new_log_factory (\<lambda>u::unit. [''msg'' \<mapsto> PyStr ''started''])
       [''labels'' \<mapsto> PyDict [(''team'', PyStr ''billing'')]]
       (snd (before_req [''Function-Execution-Id'' \<mapsto> []] Map.empty)) () ''labels''
     = None"
  by (simp add: before_req_def headers_get_def setattr_def new_log_factory_def Let_def
      getattr_def)

text \<open>
  C3, amended. When the function context has a \<open>labels\<close> entry and the execution id of
  the request context is present and truthy (a string that is not empty), the record's
  \<open>labels\<close> attribute is that entry, not the one-key dictionary made from the
  execution id. When the execution id is present but not truthy (the empty string), no
  \<open>labels\<close> attribute is attached: the record has what the base record has.
\<close>

theorem explicit_labels_take_precedence:
  "(function_context ''labels'' = Some explicit
      \<and> request_context ''execution_id'' = Some e \<and> truthy e \<longrightarrow>
      new_log_factory old_log_factory function_context request_context args ''labels''
        = Some explicit)
   \<and> (request_context ''execution_id'' = Some e \<and> \<not> truthy e \<longrightarrow>
      new_log_factory old_log_factory function_context request_context args ''labels''
        = old_log_factory args ''labels'')"
  by (simp add: new_log_factory_def Let_def setattr_def dict_get_def getattr_def)

theorem explicit_labels_take_precedence_witness:
  "new_log_factory (\<lambda>u::unit. [''msg'' \<mapsto> PyStr ''started''])
     [''labels'' \<mapsto> PyDict [(''team'', PyStr ''billing'')]]
     [''execution_id'' \<mapsto> PyStr ''exec-1''] () ''labels''
   = Some (PyDict [(''team'', PyStr ''billing'')])
   \<and> new_log_factory (\<lambda>u::unit. [''msg'' \<mapsto> PyStr ''started''])
     [''labels'' \<mapsto> PyDict [(''team'', PyStr ''billing'')]]
     [''execution_id'' \<mapsto> PyStr []] () ''labels''
   = None"
  using explicit_labels_take_precedence [where
      function_context = "[''labels'' \<mapsto> PyDict [(''team'', PyStr ''billing'')]]"
      and explicit = "PyDict [(''team'', PyStr ''billing'')]"
      and request_context = "[''execution_id'' \<mapsto> PyStr ''exec-1'']"
      and e = "PyStr ''exec-1''"
      and old_log_factory = "\<lambda>u::unit. [''msg'' \<mapsto> PyStr ''started'']" and args = "()"]
    explicit_labels_take_precedence [where
      function_context = "[''labels'' \<mapsto> PyDict [(''team'', PyStr ''billing'')]]"
      and explicit = "PyDict [(''team'', PyStr ''billing'')]"
      and request_context = "[''execution_id'' \<mapsto> PyStr []]"
      and e = "PyStr []"
      and old_log_factory = "\<lambda>u::unit. [''msg'' \<mapsto> PyStr ''started'']" and args = "()"]
  by simp

text \<open>
  C4. Every record that the factory returns has a \<open>resource\<close> attribute of type
  \<open>cloud_function\<close> whose labels are \<open>project_id\<close>, \<open>region\<close> and \<open>function_name\<close>,
  in this order, with the values that the function context holds under \<open>project_id\<close>,
  \<open>function_region\<close> and \<open>function_name\<close> (\<open>None\<close> for an entry that the function
  context does not have), whatever the base record and the request context are; with
  both contexts empty the three labels are \<open>None\<close> and the resource is still there.
\<close>

theorem resource_always_attached:
  "new_log_factory old_log_factory function_context request_context args ''resource'' =
     Some (PyResource ''cloud_function''
       [(''project_id'',
           (case function_context ''project_id'' of None \<Rightarrow> PyNone | Some v \<Rightarrow> v)),
        (''region'',
           (case function_context ''function_region'' of None \<Rightarrow> PyNone | Some v \<Rightarrow> v)),
        (''function_name'',
           (case function_context ''function_name'' of None \<Rightarrow> PyNone | Some v \<Rightarrow> v))])
   \<and> (function_context ''project_id'' = Some p
        \<and> function_context ''function_region'' = Some r
        \<and> function_context ''function_name'' = Some n \<longrightarrow>
      new_log_factory old_log_factory function_context request_context args ''resource'' =
        Some (PyResource ''cloud_function''
          [(''project_id'', p), (''region'', r), (''function_name'', n)]))
   \<and> new_log_factory old_log_factory Map.empty Map.empty args ''resource'' =
     Some (PyResource ''cloud_function''
       [(''project_id'', PyNone), (''region'', PyNone), (''function_name'', PyNone)])"
  by (simp add: new_log_factory_def Let_def setattr_def dict_get_def)

theorem resource_always_attached_witness:
  "new_log_factory (\<lambda>u::unit. [''msg'' \<mapsto> PyStr ''started''])
     [''project_id'' \<mapsto> PyStr ''proj-1'', ''function_region'' \<mapsto> PyStr ''us-central1'',
      ''function_name'' \<mapsto> PyStr ''fn-a'']
     Map.empty () ''resource''
   = Some (PyResource ''cloud_function''
       [(''project_id'', PyStr ''proj-1''), (''region'', PyStr ''us-central1''),
        (''function_name'', PyStr ''fn-a'')])"
  using resource_always_attached [where
      old_log_factory = "\<lambda>u::unit. [''msg'' \<mapsto> PyStr ''started'']"
      and function_context =
        "[''project_id'' \<mapsto> PyStr ''proj-1'', ''function_region'' \<mapsto> PyStr ''us-central1'',
          ''function_name'' \<mapsto> PyStr ''fn-a'']"
      and request_context = Map.empty and args = "()"
      and p = "PyStr ''proj-1''" and r = "PyStr ''us-central1''" and n = "PyStr ''fn-a''"]
  by simp

text \<open>
  C7. The factory only adds to the record of the wrapped factory: every attribute other
  than \<open>resource\<close>, \<open>trace\<close>, \<open>span_id\<close> and \<open>labels\<close> is what the wrapped
  factory made it, no attribute of the base record is lost, and a request-context
  attribute that was never set leaves the matching record attribute as the base record
  has it (absent, when the base record has none). The factory has no failing branch.
\<close>

theorem new_log_factory_pure_enrichment:
  "(k \<notin> {''resource'', ''trace'', ''span_id'', ''labels''} \<longrightarrow>
      new_log_factory old_log_factory function_context request_context args k
        = old_log_factory args k)
   \<and> dom (old_log_factory args)
        \<subseteq> dom (new_log_factory old_log_factory function_context request_context args)
   \<and> (request_context ''trace'' = None \<longrightarrow>
      new_log_factory old_log_factory function_context request_context args ''trace''
        = old_log_factory args ''trace'')
   \<and> (request_context ''span_id'' = None \<longrightarrow>
      new_log_factory old_log_factory function_context request_context args ''span_id''
        = old_log_factory args ''span_id'')
   \<and> (request_context ''execution_id'' = None \<longrightarrow>
      new_log_factory old_log_factory function_context request_context args ''labels''
        = old_log_factory args ''labels'')"
  by (auto simp add: new_log_factory_def Let_def setattr_def getattr_def)

theorem new_log_factory_pure_enrichment_witness:
  "new_log_factory (\<lambda>u::unit. [''msg'' \<mapsto> PyStr ''started'', ''levelno'' \<mapsto> PyInt 20])
     [''project_id'' \<mapsto> PyStr ''proj-1''] Map.empty () ''msg'' = Some (PyStr ''started'')
   \<and> {''msg'', ''levelno''}
       \<subseteq> dom (new_log_factory
              (\<lambda>u::unit. [''msg'' \<mapsto> PyStr ''started'', ''levelno'' \<mapsto> PyInt 20])
              [''project_id'' \<mapsto> PyStr ''proj-1''] Map.empty ())
   \<and> new_log_factory (\<lambda>u::unit. [''msg'' \<mapsto> PyStr ''started'', ''levelno'' \<mapsto> PyInt 20])
     [''project_id'' \<mapsto> PyStr ''proj-1''] Map.empty () ''trace'' = None
   \<and> new_log_factory (\<lambda>u::unit. [''msg'' \<mapsto> PyStr ''started'', ''levelno'' \<mapsto> PyInt 20])
     [''project_id'' \<mapsto> PyStr ''proj-1''] Map.empty () ''span_id'' = None
   \<and> new_log_factory (\<lambda>u::unit. [''msg'' \<mapsto> PyStr ''started'', ''levelno'' \<mapsto> PyInt 20])
     [''project_id'' \<mapsto> PyStr ''proj-1''] Map.empty () ''labels'' = None"
  using new_log_factory_pure_enrichment [where k = "''msg''"
      and old_log_factory = "\<lambda>u::unit. [''msg'' \<mapsto> PyStr ''started'', ''levelno'' \<mapsto> PyInt 20]"
      and function_context = "[''project_id'' \<mapsto> PyStr ''proj-1'']"
      and request_context = Map.empty and args = "()"]
  by simp

text \<open>
  C9. A request-context attribute that is the empty string is not attached: with
  \<open>trace\<close>, \<open>span_id\<close> or \<open>execution_id\<close> equal to \<open>""\<close> the record's \<open>trace\<close>,
  \<open>span_id\<close> or \<open>labels\<close> is what the base record has (absent, when it has none).
\<close>

theorem empty_string_not_attached:
  "(request_context ''trace'' = Some (PyStr []) \<longrightarrow>
      new_log_factory old_log_factory function_context request_context args ''trace''
        = old_log_factory args ''trace'')
   \<and> (request_context ''span_id'' = Some (PyStr []) \<longrightarrow>
      new_log_factory old_log_factory function_context request_context args ''span_id''
        = old_log_factory args ''span_id'')
   \<and> (request_context ''execution_id'' = Some (PyStr []) \<longrightarrow>
      new_log_factory old_log_factory function_context request_context args ''labels''
        = old_log_factory args ''labels'')"
  by (simp add: new_log_factory_def Let_def setattr_def getattr_def)

theorem empty_string_not_attached_witness:
  "new_log_factory (\<lambda>u::unit. [''msg'' \<mapsto> PyStr ''started'']) Map.empty
     [''trace'' \<mapsto> PyStr [], ''span_id'' \<mapsto> PyStr [], ''execution_id'' \<mapsto> PyStr []]
     () ''trace'' = None
   \<and> new_log_factory (\<lambda>u::unit. [''msg'' \<mapsto> PyStr ''started'']) Map.empty
     [''trace'' \<mapsto> PyStr [], ''span_id'' \<mapsto> PyStr [], ''execution_id'' \<mapsto> PyStr []]
     () ''span_id'' = None
   \<and> new_log_factory (\<lambda>u::unit. [''msg'' \<mapsto> PyStr ''started'']) Map.empty
     [''trace'' \<mapsto> PyStr [], ''span_id'' \<mapsto> PyStr [], ''execution_id'' \<mapsto> PyStr []]
     () ''labels'' = None"
  using empty_string_not_attached [where
      old_log_factory = "\<lambda>u::unit. [''msg'' \<mapsto> PyStr ''started'']"
      and function_context = Map.empty and args = "()"
      and request_context =
        "[''trace'' \<mapsto> PyStr [], ''span_id'' \<mapsto> PyStr [], ''execution_id'' \<mapsto> PyStr []]"]
  by simp

section \<open>LogFactory\<close>

text \<open>
  C10. \<open>LogFactory\<close> does not use its \<open>name\<close> argument: two calls that differ in the
  name only return the same logger, the one named after the module, in the same state,
  and the level of that logger is \<open>DEBUG\<close> when \<open>debug\<close> is true and \<open>log_level\<close>
  otherwise.
\<close>

theorem LogFactory_ignores_name:
  "LogFactory module_name n1 log_level debug m = LogFactory module_name n2 log_level debug m
   \<and> fst (LogFactory module_name n1 log_level debug m) = module_name
   \<and> map_option level (snd (LogFactory module_name n1 log_level debug m) module_name)
       = Some (if debug then DEBUG else log_level)"
  by (simp add: LogFactory_def getLogger_def setLevel_def split: option.splits)

section \<open>Removal of the duplicate root handlers: when it happens\<close>

text \<open>
  Three console handlers followed by the handler of the backend: the list is not the
  pattern of the specification (it has a third console handler, not two ahead of the
  backend handler), and the first two handlers are removed all the same; a console
  handler stays beside the backend handler, and the number of handlers changes.
\<close>

theorem third_console_handler_still_loses_two:
  "\<not> spec_duplicate_pattern
       [\<lparr>handler_name = ''console-1'', isinstance_StreamHandler = True,
          installed_by_backend = False\<rparr>,
        \<lparr>handler_name = ''console-2'', isinstance_StreamHandler = True,
          installed_by_backend = False\<rparr>,
        \<lparr>handler_name = ''console-3'', isinstance_StreamHandler = True,
          installed_by_backend = False\<rparr>,
        \<lparr>handler_name = ''cloud'', isinstance_StreamHandler = True,
          installed_by_backend = True\<rparr>]
   \<and> remove_root_stream_handlers
       [\<lparr>handler_name = ''console-1'', isinstance_StreamHandler = True,
          installed_by_backend = False\<rparr>,
        \<lparr>handler_name = ''console-2'', isinstance_StreamHandler = True,
          installed_by_backend = False\<rparr>,
        \<lparr>handler_name = ''console-3'', isinstance_StreamHandler = True,
          installed_by_backend = False\<rparr>,
        \<lparr>handler_name = ''cloud'', isinstance_StreamHandler = True,
          installed_by_backend = True\<rparr>]
     = [\<lparr>handler_name = ''console-3'', isinstance_StreamHandler = True,
          installed_by_backend = False\<rparr>,
        \<lparr>handler_name = ''cloud'', isinstance_StreamHandler = True,
          installed_by_backend = True\<rparr>]
   \<and> \<not> list_all installed_by_backend
       (remove_root_stream_handlers
         [\<lparr>handler_name = ''console-1'', isinstance_StreamHandler = True,
            installed_by_backend = False\<rparr>,
          \<lparr>handler_name = ''console-2'', isinstance_StreamHandler = True,
            installed_by_backend = False\<rparr>,
          \<lparr>handler_name = ''console-3'', isinstance_StreamHandler = True,
            installed_by_backend = False\<rparr>,
          \<lparr>handler_name = ''cloud'', isinstance_StreamHandler = True,
            installed_by_backend = True\<rparr>])
   \<and> length (remove_root_stream_handlers
         [\<lparr>handler_name = ''console-1'', isinstance_StreamHandler = True,
            installed_by_backend = False\<rparr>,
          \<lparr>handler_name = ''console-2'', isinstance_StreamHandler = True,
            installed_by_backend = False\<rparr>,
          \<lparr>handler_name = ''console-3'', isinstance_StreamHandler = True,
            installed_by_backend = False\<rparr>,
          \<lparr>handler_name = ''cloud'', isinstance_StreamHandler = True,
            installed_by_backend = True\<rparr>]) = 2"
  by (simp add: remove_root_stream_handlers_def del_at_0)

text \<open>
  C6, amended. The removal depends on the number of handlers and on the type of the
  first two only: when the root logger has more than two handlers and the first two are
  stream handlers, exactly those two are removed and the others stay, in their order,
  whatever they are (so two console handlers followed by backend handlers only leave
  the backend handlers, at least one); when it has at most two handlers, or one of the
  first two is not a stream handler, the list is unchanged.
\<close>

theorem remove_root_stream_handlers_conditional:
  "(isinstance_StreamHandler a \<and> isinstance_StreamHandler b \<longrightarrow>
      remove_root_stream_handlers (a # b # c # rest) = c # rest)
   \<and> (spec_duplicate_pattern hs \<longrightarrow>
      remove_root_stream_handlers hs = drop 2 hs
      \<and> list_all installed_by_backend (remove_root_stream_handlers hs)
      \<and> remove_root_stream_handlers hs \<noteq> [])
   \<and> (length hs \<le> 2 \<or> \<not> isinstance_StreamHandler (hs ! 0)
        \<or> \<not> isinstance_StreamHandler (hs ! 1) \<longrightarrow>
      remove_root_stream_handlers hs = hs)"
proof (intro conjI impI)
  assume "isinstance_StreamHandler a \<and> isinstance_StreamHandler b"
  then show "remove_root_stream_handlers (a # b # c # rest) = c # rest"
    by (simp add: remove_root_stream_handlers_def del_at_0)
next
  assume p: "spec_duplicate_pattern hs"
  then obtain a b c rest where hs: "hs = a # b # c # rest"
    by (cases hs rule: spec_duplicate_pattern.cases) auto
  with p have r: "remove_root_stream_handlers hs = c # rest"
    by (simp add: remove_root_stream_handlers_def del_at_0 generic_console_def)
  show "remove_root_stream_handlers hs = drop 2 hs" using r hs by simp
  show "list_all installed_by_backend (remove_root_stream_handlers hs)"
    using r p hs by simp
  show "remove_root_stream_handlers hs \<noteq> []" using r by simp
next
  assume "length hs \<le> 2 \<or> \<not> isinstance_StreamHandler (hs ! 0)
    \<or> \<not> isinstance_StreamHandler (hs ! 1)"
  then show "remove_root_stream_handlers hs = hs"
    by (auto simp add: remove_root_stream_handlers_def)
qed

theorem remove_root_stream_handlers_conditional_witness:
  "remove_root_stream_handlers
       [\<lparr>handler_name = ''console-1'', isinstance_StreamHandler = True,
          installed_by_backend = False\<rparr>,
        \<lparr>handler_name = ''console-2'', isinstance_StreamHandler = True,
          installed_by_backend = False\<rparr>,
        \<lparr>handler_name = ''cloud'', isinstance_StreamHandler = True,
          installed_by_backend = True\<rparr>]
     = [\<lparr>handler_name = ''cloud'', isinstance_StreamHandler = True,
          installed_by_backend = True\<rparr>]
   \<and> remove_root_stream_handlers
       [\<lparr>handler_name = ''cloud'', isinstance_StreamHandler = True,
          installed_by_backend = True\<rparr>]
     = [\<lparr>handler_name = ''cloud'', isinstance_StreamHandler = True,
          installed_by_backend = True\<rparr>]"
  using remove_root_stream_handlers_conditional [where
      a = "\<lparr>handler_name = ''console-1'', isinstance_StreamHandler = True,
             installed_by_backend = False\<rparr>"
      and b = "\<lparr>handler_name = ''console-2'', isinstance_StreamHandler = True,
             installed_by_backend = False\<rparr>"
      and c = "\<lparr>handler_name = ''cloud'', isinstance_StreamHandler = True,
             installed_by_backend = True\<rparr>"
      and rest = "[]"
      and hs = "[\<lparr>handler_name = ''cloud'', isinstance_StreamHandler = True,
             installed_by_backend = True\<rparr>]"]
    remove_root_stream_handlers_conditional [where
      hs = "[\<lparr>handler_name = ''console-1'', isinstance_StreamHandler = True,
               installed_by_backend = False\<rparr>,
             \<lparr>handler_name = ''console-2'', isinstance_StreamHandler = True,
               installed_by_backend = False\<rparr>,
             \<lparr>handler_name = ''cloud'', isinstance_StreamHandler = True,
               installed_by_backend = True\<rparr>]"]
  by (simp add: generic_console_def)

section \<open>The request context of concurrent flows\<close>

text \<open>
  Two flows interleaved on one OS thread: after the hook of the first and then the hook
  of the second, the first flow reads the trace, span and execution id of the second.
\<close>

theorem same_thread_flows_share_context:
  "request_context_get
     (run_hooks
        [(\<lparr>flow_id = 1, os_thread = 0\<rparr>,
          [''Traceparent'' \<mapsto> ''00-aaaa-bbbb-01'', ''Function-Execution-Id'' \<mapsto> ''exec-A'']),
         (\<lparr>flow_id = 2, os_thread = 0\<rparr>,
          [''Traceparent'' \<mapsto> ''00-cccc-dddd-01'', ''Function-Execution-Id'' \<mapsto> ''exec-B''])]
        (\<lambda>t. Map.empty))
     \<lparr>flow_id = 1, os_thread = 0\<rparr>
   = (PyStr ''cccc'', PyStr ''dddd'', PyStr ''exec-B'')"
  by (simp add: request_context_get_def before_req_in_def before_req_def headers_get_def
      set_trace_fields_def py_index_def setattr_def getattr_def)

text \<open>
  C8, amended. The request context is kept per OS thread: after any sequence of hook
  runs, what a flow reads is the result of the hooks that ran on its own thread, in
  their order, applied to what that thread held at the start; so the hook of a flow on
  another OS thread never changes what a flow reads. Flows interleaved on one OS thread
  share the context.
\<close>

theorem request_context_isolated_per_thread:
  "run_hooks es store (os_thread a)
     = run_hooks_local (map snd (filter (\<lambda>e. os_thread (fst e) = os_thread a) es))
         (store (os_thread a))
   \<and> (os_thread a \<noteq> os_thread b \<longrightarrow>
        request_context_get (before_req_in b hs store) a = request_context_get store a)"
  by (simp add: run_hooks_thread request_context_get_def before_req_in_def)

theorem request_context_isolated_per_thread_witness:
  "request_context_get
     (before_req_in \<lparr>flow_id = 2, os_thread = 1\<rparr>
        [''Traceparent'' \<mapsto> ''00-cccc-dddd-01'', ''Function-Execution-Id'' \<mapsto> ''exec-B'']
        (\<lambda>t. if t = 0
              then [''trace'' \<mapsto> PyStr ''aaaa'', ''span_id'' \<mapsto> PyStr ''bbbb'',
                    ''execution_id'' \<mapsto> PyStr ''exec-A'']
              else Map.empty))
     \<lparr>flow_id = 1, os_thread = 0\<rparr>
   = (PyStr ''aaaa'', PyStr ''bbbb'', PyStr ''exec-A'')"
  using request_context_isolated_per_thread [where
      a = "\<lparr>flow_id = 1, os_thread = 0\<rparr>" and b = "\<lparr>flow_id = 2, os_thread = 1\<rparr>"
      and hs = "[''Traceparent'' \<mapsto> ''00-cccc-dddd-01'', ''Function-Execution-Id'' \<mapsto> ''exec-B'']"
      and es = "[]"
      and store = "\<lambda>t. if t = 0
              then [''trace'' \<mapsto> PyStr ''aaaa'', ''span_id'' \<mapsto> PyStr ''bbbb'',
                    ''execution_id'' \<mapsto> PyStr ''exec-A'']
              else Map.empty"]
  by (simp add: request_context_get_def getattr_def)

end
